theory Spec2Isabelle
  imports Complex_Main "HOL-Library.Product_Lexorder" "HOL-Library.Multiset"
begin

section \<open>Data model (models.py)\<close>

datatype ScheduleType = DAILY | WEEKLY | INTERVAL

datatype CloudBackupType = NONE | ONEDRIVE | GOOGLE_CLOUD

datatype BackupStatus = PENDING | RUNNING | COMPLETED | FAILED | CANCELLED

text \<open>Exceptions are values. A raised \<^verbatim>\<open>Exception\<close> is carried as its \<^verbatim>\<open>str(ex)\<close> text
  (\<open>Inl msg\<close> of a result \<open>string + 'a\<close>); the library's \<^verbatim>\<open>ValueError\<close> of a rejected cron
  expression has a constructor of its own.\<close>

datatype py_error = ValueError

record ServerConfig =
  server_id :: string
  server_name :: string
  game_type :: string
  server_path :: string
  save_game_path :: string
  enabled :: bool

text \<open>\<^verbatim>\<open>datetime.time\<close>, as far as the scheduler reads it.\<close>

record time_of_day =
  hour :: nat
  minute :: nat
  second :: nat

text \<open>Field names shared by two dataclasses carry a prefix in the second one
  (\<open>sched_enabled\<close>, \<open>res_server_id\<close>, \<open>job_schedule_id\<close>, ...).\<close>

record BackupSchedule =
  schedule_id :: string
  name :: string
  server_ids :: "string list"
  schedule_type :: ScheduleType
  time :: time_of_day
  interval_minutes :: int
  days_of_week :: "int list"
  sched_enabled :: bool
  backup_path :: string
  retention_days :: int
  enable_cloud_backup :: bool
  cloud_backup_type :: CloudBackupType
  cloud_backup_path :: string

record ServerBackupResult =
  res_server_id :: string
  res_server_name :: string
  success :: bool
  res_backup_path :: string
  res_cloud_backup_path :: string
  cloud_backup_success :: bool
  error_message :: string
  backup_size_bytes :: nat

record BackupJob =
  job_id :: string
  job_schedule_id :: string
  start_time :: "real option"
  end_time :: "real option"
  status :: BackupStatus
  message :: string
  server_results :: "ServerBackupResult list"

text \<open>\<^verbatim>\<open>BackupSchedule()\<close>: every field at its dataclass default; the default of \<^verbatim>\<open>time\<close> is the
  wall clock at construction, a parameter here.\<close>

definition default_BackupSchedule :: "time_of_day \<Rightarrow> BackupSchedule" where
  "default_BackupSchedule t =
     \<lparr>schedule_id = [], name = [], server_ids = [], schedule_type = DAILY, time = t,
      interval_minutes = 60, days_of_week = [], sched_enabled = True, backup_path = [],
      retention_days = 7, enable_cloud_backup = False, cloud_backup_type = NONE,
      cloud_backup_path = ''WinGSMBackups''\<rparr>"

text \<open>\<^verbatim>\<open>ServerBackupResult(server_id=..., server_name=...)\<close>: the other fields at their defaults.\<close>

definition new_result :: "string \<Rightarrow> string \<Rightarrow> ServerBackupResult" where
  "new_result sid sname =
     \<lparr>res_server_id = sid, res_server_name = sname, success = False, res_backup_path = [],
      res_cloud_backup_path = [], cloud_backup_success = False, error_message = [],
      backup_size_bytes = 0\<rparr>"

section \<open>Scheduler (scheduler\_service.py): schedules and triggers\<close>

text \<open>The triggers of the scheduling library, as data. A cron trigger carries its
  \<^verbatim>\<open>day_of_week\<close> field (\<open>None\<close> when the argument is not given, which the library reads as
  every day), hour and minute. The source builds the field as the comma-joined decimal
  numbers of a list; the list itself stands for that string here.\<close>

datatype trigger =
    CronTrigger "int list option" nat nat
  | IntervalTrigger int

text \<open>Constructing a cron trigger with a \<^verbatim>\<open>day_of_week\<close> expression. The library numbers
  weekdays 0..6, Monday to Sunday (the source's own comment in \<^verbatim>\<open>add_schedule\<close> says so), and
  its constructor raises \<^verbatim>\<open>ValueError\<close> for an empty expression or a number outside 0..6.\<close>

definition cron_day_of_week :: "int list \<Rightarrow> nat \<Rightarrow> nat \<Rightarrow> py_error + trigger" where
  "cron_day_of_week days h m =
     (if days = [] \<or> (\<exists>d \<in> set days. d < 0 \<or> 6 < d) then Inl ValueError
      else Inr (CronTrigger (Some days) h m))"

text \<open>The weekdays (library numbering, 0 = Monday .. 6 = Sunday) on which a cron trigger
  fires.\<close>

fun fire_days :: "trigger \<Rightarrow> int set" where
  "fire_days (CronTrigger None h m) = {0..6}"
| "fire_days (CronTrigger (Some ds) h m) = set ds"
| "fire_days (IntervalTrigger n) = {0..6}"

text \<open>The time of day at which a cron trigger fires.\<close>

fun fire_time :: "trigger \<Rightarrow> (nat \<times> nat) option" where
  "fire_time (CronTrigger ds h m) = Some (h, m)"
| "fire_time (IntervalTrigger n) = None"

text \<open>State of \<^verbatim>\<open>SchedulerService\<close>: the list \<^verbatim>\<open>self.schedules\<close> and the job store of the
  scheduling library, a list of (job id, trigger, argument) in which \<^verbatim>\<open>add_job\<close> with
  \<^verbatim>\<open>replace_existing=True\<close> overwrites the entry of the same id. Schedule definitions are
  values: each call of \<^verbatim>\<open>add_schedule\<close> is given an object of its own (the schedule editor
  hands over a deep copy).\<close>

record SchedulerService =
  schedules :: "BackupSchedule list"
  jobs :: "(string \<times> trigger \<times> string) list"

definition new_SchedulerService :: SchedulerService where
  "new_SchedulerService = \<lparr>schedules = [], jobs = []\<rparr>"

fun add_job :: "string \<Rightarrow> trigger \<Rightarrow> string \<Rightarrow> (string \<times> trigger \<times> string) list
    \<Rightarrow> (string \<times> trigger \<times> string) list" where
  "add_job jid trg arg [] = [(jid, trg, arg)]"
| "add_job jid trg arg (j # js) =
     (if fst j = jid then (jid, trg, arg) # js else j # add_job jid trg arg js)"

definition remove_job :: "string \<Rightarrow> (string \<times> trigger \<times> string) list
    \<Rightarrow> (string \<times> trigger \<times> string) list" where
  "remove_job jid js = filter (\<lambda>j. fst j \<noteq> jid) js"

text \<open>The trigger \<^verbatim>\<open>add_schedule\<close> computes for an enabled schedule (lines 59-72).\<close>

definition make_trigger :: "BackupSchedule \<Rightarrow> py_error + trigger" where
  "make_trigger schedule =
     (case schedule_type schedule of
        DAILY \<Rightarrow> Inr (CronTrigger None (hour (time schedule)) (minute (time schedule)))
      | WEEKLY \<Rightarrow>
          (let days = map (\<lambda>d. d + 1) (days_of_week schedule)
           in cron_day_of_week days (hour (time schedule)) (minute (time schedule)))
      | INTERVAL \<Rightarrow> Inr (IntervalTrigger (interval_minutes schedule)))"

text \<open>\<^verbatim>\<open>add_schedule\<close>: the schedule is appended first; a disabled one returns there; for an
  enabled one the trigger is built (an exception of the constructor leaves the method with
  the schedule already appended) and stored under the id \<^verbatim>\<open>backup_{schedule_id}\<close>. The result
  is the state afterwards and the exception raised, if any.\<close>

definition add_schedule :: "SchedulerService \<Rightarrow> BackupSchedule
    \<Rightarrow> SchedulerService \<times> py_error option" where
  "add_schedule svc schedule =
     (let svc1 = svc\<lparr>schedules := schedules svc @ [schedule]\<rparr>
      in if \<not> sched_enabled schedule then (svc1, None)
         else
           (let job_id = ''backup_'' @ schedule_id schedule
            in case make_trigger schedule of
                 Inl e \<Rightarrow> (svc1, Some e)
               | Inr trg \<Rightarrow>
                   (svc1\<lparr>jobs := add_job job_id trg (schedule_id schedule) (jobs svc1)\<rparr>,
                    None)))"

definition remove_schedule :: "SchedulerService \<Rightarrow> string \<Rightarrow> SchedulerService" where
  "remove_schedule svc sid =
     svc\<lparr>schedules := filter (\<lambda>s. schedule_id s \<noteq> sid) (schedules svc),
         jobs := remove_job (''backup_'' @ sid) (jobs svc)\<rparr>"

text \<open>\<^verbatim>\<open>get_schedule\<close>: the first schedule of the list with the id.\<close>

definition get_schedule :: "SchedulerService \<Rightarrow> string \<Rightarrow> BackupSchedule option" where
  "get_schedule svc sid = find (\<lambda>s. schedule_id s = sid) (schedules svc)"

text \<open>The triggers active for a schedule id: the entries of the job store under its job id.\<close>

definition active_triggers :: "SchedulerService \<Rightarrow> string \<Rightarrow> trigger list" where
  "active_triggers svc sid =
     map (\<lambda>j. fst (snd j)) (filter (\<lambda>j. fst j = ''backup_'' @ sid) (jobs svc))"

section \<open>Job executor (scheduler\_service.py, backup\_service.py)\<close>

text \<open>The collaborators of one job run. A call that may raise returns \<open>string + 'a\<close>, \<open>Inl\<close>
  carrying the text of the exception. The archive step of \<^verbatim>\<open>backup_server\<close> is split where
  the source can fail: \<open>write_archive\<close> is the directory creation and the writing of the zip
  file, \<open>stat_size\<close> the size query after it. A cloud service that is not there is \<open>None\<close>
  (reading its attribute raises inside the upload block).\<close>

record cloud_service =
  is_ready :: bool
  upload_backup :: "string \<Rightarrow> string \<Rightarrow> string + bool"

record world =
  is_server_running :: "string \<Rightarrow> string + bool"
  stop_server :: "string \<Rightarrow> string + bool"
  start_server :: "string \<Rightarrow> string + bool"
  path_exists :: "string \<Rightarrow> bool"
  write_archive :: "string \<Rightarrow> string \<Rightarrow> string + unit"
  stat_size :: "string \<Rightarrow> string + nat"
  onedrive_service :: "cloud_service option"
  google_cloud_service :: "cloud_service option"
  now_strftime :: string
  now_time :: time_of_day
  now_start :: real
  now_end :: real
  uuid4 :: string
  config_servers :: "ServerConfig list"
  backup_completed_callback :: "(BackupJob \<Rightarrow> string + unit) option"

text \<open>What a run does to the outside, in order.\<close>

datatype event =
    StopServer string
  | Sleep nat
  | WriteArchive string string
  | Upload CloudBackupType string string
  | StartServer string
  | CleanupOldBackups string int
  | Callback

text \<open>\<^verbatim>\<open>BackupService.backup_server\<close> (backup\_service.py lines 18-59). Path joining is written
  with \<^verbatim>\<open>/\<close>.\<close>

definition backup_server :: "world \<Rightarrow> ServerConfig \<Rightarrow> string
    \<Rightarrow> ServerBackupResult \<times> event list" where
  "backup_server w server backup_root_path =
     (let result = new_result (server_id server) (server_name server)
      in if \<not> path_exists w (save_game_path server)
         then (result\<lparr>success := False,
                      error_message := ''Savegame path not found or invalid''\<rparr>, [])
         else
           (let timestamp = now_strftime w;
                backup_dir = backup_root_path @ ''/'' @ server_id server @ ''/'' @ timestamp;
                zip_path = backup_dir @ ''/'' @ server_name server @ ''_'' @ timestamp @ ''.zip''
            in case write_archive w (save_game_path server) zip_path of
                 Inl ex \<Rightarrow> (result\<lparr>success := False, error_message := ex\<rparr>, [])
               | Inr _ \<Rightarrow>
                   (case stat_size w zip_path of
                      Inl ex \<Rightarrow>
                        (result\<lparr>res_backup_path := zip_path, success := False,
                                error_message := ex\<rparr>,
                         [WriteArchive (save_game_path server) zip_path])
                    | Inr n \<Rightarrow>
                        (result\<lparr>res_backup_path := zip_path, backup_size_bytes := n,
                                success := True\<rparr>,
                         [WriteArchive (save_game_path server) zip_path]))))"

text \<open>One backend of the upload block (lines 165-189): nothing happens unless the backend
  reports ready; an exception of the upload, or a missing backend, is caught at line 191
  and sets \<^verbatim>\<open>cloud_backup_success = False\<close>.\<close>

definition upload_to :: "CloudBackupType \<Rightarrow> cloud_service option \<Rightarrow> string
    \<Rightarrow> ServerBackupResult \<Rightarrow> ServerBackupResult \<times> event list" where
  "upload_to kind svc cloud_path result =
     (case svc of
        None \<Rightarrow> (result\<lparr>cloud_backup_success := False\<rparr>, [])
      | Some c \<Rightarrow>
          if is_ready c then
            (case upload_backup c (res_backup_path result) cloud_path of
               Inl ex \<Rightarrow>
                 (result\<lparr>cloud_backup_success := False\<rparr>,
                  [Upload kind (res_backup_path result) cloud_path])
             | Inr ok \<Rightarrow>
                 (result\<lparr>res_cloud_backup_path := cloud_path, cloud_backup_success := ok\<rparr>,
                  [Upload kind (res_backup_path result) cloud_path]))
          else (result, []))"

text \<open>The cloud step of one server (lines 155-193).\<close>

definition cloud_step :: "world \<Rightarrow> BackupSchedule \<Rightarrow> ServerConfig \<Rightarrow> ServerBackupResult
    \<Rightarrow> ServerBackupResult \<times> event list" where
  "cloud_step w schedule server result =
     (if success result \<and> enable_cloud_backup schedule \<and> res_backup_path result \<noteq> [] then
        (case cloud_backup_type schedule of
           ONEDRIVE \<Rightarrow>
             upload_to ONEDRIVE (onedrive_service w)
               (if cloud_backup_path schedule \<noteq> [] then cloud_backup_path schedule
                else ''WinGSMBackups/'' @ server_id server)
               result
         | GOOGLE_CLOUD \<Rightarrow>
             upload_to GOOGLE_CLOUD (google_cloud_service w)
               (if cloud_backup_path schedule \<noteq> []
                then cloud_backup_path schedule @ ''/'' @ server_id server
                else server_id server)
               result
         | NONE \<Rightarrow> (result, []))
      else (result, []))"

text \<open>The result appended by the handler at line 199.\<close>

definition failed_result :: "ServerConfig \<Rightarrow> string \<Rightarrow> ServerBackupResult" where
  "failed_result server ex =
     (new_result (server_id server) (server_name server))
       \<lparr>success := False, error_message := ex\<rparr>"

text \<open>The body of the loop over the servers (lines 143-207): the results it appends to the
  job and what it did. The result of \<^verbatim>\<open>backup_server\<close> is appended before the cloud step
  changes it in place, so the list holds the changed one; an exception after the append
  (the restart) adds a second, failed result for the same server.\<close>

definition backup_one :: "world \<Rightarrow> BackupSchedule \<Rightarrow> ServerConfig
    \<Rightarrow> ServerBackupResult list \<times> event list" where
  "backup_one w schedule server =
     (case is_server_running w (server_id server) of
        Inl ex \<Rightarrow> ([failed_result server ex], [])
      | Inr running \<Rightarrow>
          (case (if running
                 then (case stop_server w (server_id server) of
                         Inl ex \<Rightarrow> Inl ex
                       | Inr _ \<Rightarrow> Inr [StopServer (server_id server), Sleep 5])
                 else Inr []) of
             Inl ex \<Rightarrow> ([failed_result server ex], [StopServer (server_id server)])
           | Inr stopped \<Rightarrow>
               (let (result0, archived) = backup_server w server (backup_path schedule);
                    (result, uploaded) = cloud_step w schedule server result0
                in if success result then
                     (case start_server w (server_id server) of
                        Inl ex \<Rightarrow>
                          ([result, failed_result server ex],
                           stopped @ archived @ uploaded @ [StartServer (server_id server)])
                      | Inr _ \<Rightarrow>
                          ([result],
                           stopped @ archived @ uploaded @ [StartServer (server_id server)]))
                   else ([result], stopped @ archived @ uploaded))))"

text \<open>The loop, server after server.\<close>

fun backup_all :: "world \<Rightarrow> BackupSchedule \<Rightarrow> ServerConfig list
    \<Rightarrow> ServerBackupResult list \<times> event list" where
  "backup_all w schedule [] = ([], [])"
| "backup_all w schedule (server # rest) =
     (let (rs, es) = backup_one w schedule server;
          (rs', es') = backup_all w schedule rest
      in (rs @ rs', es @ es'))"

text \<open>Lines 117-119: the schedule of the id, or a default one.\<close>

definition resolve_schedule :: "world \<Rightarrow> SchedulerService \<Rightarrow> string \<Rightarrow> BackupSchedule" where
  "resolve_schedule w svc sid =
     (case get_schedule svc sid of
        None \<Rightarrow> default_BackupSchedule (now_time w)
      | Some s \<Rightarrow> s)"

text \<open>Lines 136-140: the servers of the list that the schedule names and that are enabled,
  in the order of the list.\<close>

definition enabled_servers :: "BackupSchedule \<Rightarrow> ServerConfig list \<Rightarrow> ServerConfig list" where
  "enabled_servers schedule servers =
     filter (\<lambda>s. server_id s \<in> set (server_ids schedule) \<and> enabled s) servers"

text \<open>\<^verbatim>\<open>execute_backup_async\<close> (lines 113-229). \<^verbatim>\<open>cleanup_old_backups\<close> catches every exception
  of its own; an exception of the completion callback reaches the handler at line 224.\<close>

definition execute_backup_async :: "world \<Rightarrow> SchedulerService \<Rightarrow> string
    \<Rightarrow> ServerConfig list option \<Rightarrow> BackupJob \<times> event list" where
  "execute_backup_async w svc sid servers_opt =
     (let schedule = resolve_schedule w svc sid;
          servers = (case servers_opt of None \<Rightarrow> config_servers w | Some l \<Rightarrow> l);
          job = \<lparr>job_id = uuid4 w, job_schedule_id = sid, start_time = Some (now_start w),
                 end_time = None, status = RUNNING, message = [], server_results = []\<rparr>;
          (results, es) = backup_all w schedule (enabled_servers schedule servers);
          job1 = job\<lparr>server_results := results,
                     status := (if list_all success results then COMPLETED else FAILED),
                     end_time := Some (now_end w)\<rparr>;
          cleanup = [CleanupOldBackups (backup_path schedule) (retention_days schedule)]
      in case backup_completed_callback w of
           None \<Rightarrow> (job1, es @ cleanup)
         | Some cb \<Rightarrow>
             (case cb job1 of
                Inl ex \<Rightarrow>
                  (job1\<lparr>status := FAILED, message := ex, end_time := Some (now_end w)\<rparr>,
                   es @ cleanup @ [Callback])
              | Inr _ \<Rightarrow> (job1, es @ cleanup @ [Callback])))"

section \<open>Retention sweeper (backup\_service.py, cleanup\_old\_backups)\<close>

text \<open>The part of the file system the sweep walks. A child of a server directory has a name,
  is a directory or not, has a modification time (\<open>None\<close> when \<^verbatim>\<open>stat\<close> raises) and can be
  removed or not (\<^verbatim>\<open>shutil.rmtree\<close> raising, as for a locked file). A child of the root has a
  name, is a directory or not, and a listing (\<open>None\<close> when \<^verbatim>\<open>iterdir\<close> raises). Times are
  seconds as real numbers; the rounding of Python's floats is not modelled.\<close>

record snapshot_entry =
  entry_name :: string
  entry_is_dir :: bool
  entry_mtime :: "real option"
  entry_removable :: bool

record server_entry =
  srv_name :: string
  srv_is_dir :: bool
  srv_listing :: "snapshot_entry list option"

datatype backup_root = Absent | NotADirectory | Listing "server_entry list"

text \<open>Lines 78-83: the test that decides on one child of a server directory. An exception of
  \<^verbatim>\<open>stat\<close> or \<^verbatim>\<open>rmtree\<close> is swallowed and the child stays.\<close>

definition sweep_removes :: "real \<Rightarrow> snapshot_entry \<Rightarrow> bool" where
  "sweep_removes cutoff_date backup_dir =
     (entry_is_dir backup_dir \<and>
      (case entry_mtime backup_dir of
         None \<Rightarrow> False
       | Some st_mtime \<Rightarrow> st_mtime < cutoff_date \<and> entry_removable backup_dir))"

text \<open>The outer loop (lines 70-83). An exception of \<^verbatim>\<open>iterdir\<close> on a server directory leaves
  both loops through the handler at line 85: the directories after it are not visited.\<close>

fun sweep_servers :: "real \<Rightarrow> server_entry list \<Rightarrow> server_entry list" where
  "sweep_servers cutoff_date [] = []"
| "sweep_servers cutoff_date (server_dir # rest) =
     (if \<not> srv_is_dir server_dir then server_dir # sweep_servers cutoff_date rest
      else
        (case srv_listing server_dir of
           None \<Rightarrow> server_dir # rest
         | Some children \<Rightarrow>
             server_dir\<lparr>srv_listing :=
                 Some (filter (\<lambda>d. \<not> sweep_removes cutoff_date d) children)\<rparr>
               # sweep_servers cutoff_date rest))"

text \<open>\<^verbatim>\<open>cleanup_old_backups\<close>: the file system afterwards. \<open>now\<close> is
  \<^verbatim>\<open>datetime.now().timestamp()\<close>.\<close>

definition cleanup_old_backups :: "real \<Rightarrow> backup_root \<Rightarrow> int \<Rightarrow> backup_root" where
  "cleanup_old_backups now backup_root_dir retention =
     (case backup_root_dir of
        Absent \<Rightarrow> Absent
      | NotADirectory \<Rightarrow> NotADirectory
      | Listing server_dirs \<Rightarrow>
          (let cutoff_date = now - real_of_int (retention * 24 * 60 * 60)
           in Listing (sweep_servers cutoff_date server_dirs)))"

text \<open>The children of the server directories, each with the name of its server directory.\<close>

fun snapshot_dirs :: "backup_root \<Rightarrow> (string \<times> snapshot_entry) list" where
  "snapshot_dirs (Listing server_dirs) =
     concat (map (\<lambda>s. case srv_listing s of
                         None \<Rightarrow> []
                       | Some children \<Rightarrow> map (\<lambda>d. (srv_name s, d)) children)
               (filter srv_is_dir server_dirs))"
| "snapshot_dirs _ = []"

section \<open>Restore engine (restore\_service.py, restore\_backup)\<close>

text \<open>Python's \<^verbatim>\<open>str.lower\<close> and \<^verbatim>\<open>str.endswith\<close> on the ASCII range.\<close>

definition lower_char :: "char \<Rightarrow> char" where
  "lower_char c =
     (if (65::nat) \<le> of_char c \<and> of_char c \<le> (90::nat)
      then char_of (of_char c + (32::nat)) else c)"

definition lower :: "string \<Rightarrow> string" where
  "lower s = map lower_char s"

definition endswith :: "string \<Rightarrow> string \<Rightarrow> bool" where
  "endswith s ext = (length ext \<le> length s \<and> drop (length s - length ext) s = ext)"

definition skip_extensions :: "string list" where
  "skip_extensions = [''.exe'', ''.dll'', ''.bat'', ''.cmd'']"

text \<open>Line 182: the test that skips an entry of the archive.\<close>

definition is_skipped :: "string \<Rightarrow> bool" where
  "is_skipped file_name = list_ex (\<lambda>ext. endswith (lower file_name) ext) skip_extensions"

text \<open>What \<^verbatim>\<open>zip_ref.extract\<close> does for one entry, what opening the archive gives, and what
  the destination is.\<close>

datatype extract_outcome = Written | PermissionError | ExtractError string

record zip_entry =
  entry_file_name :: string
  on_extract :: extract_outcome

datatype archive = BadZipFile | OpenError string | Namelist "zip_entry list"

datatype destination = DestMissing | DestNotListable string | DestDir "string list"

record restore_world =
  backup_file_exists :: bool
  backup_archive :: archive
  dest_parent :: string
  dest_name :: string
  dest :: destination
  copytree :: "string option"
  restore_stamp :: string

text \<open>The messages of the result, as data: the form of the text and the values printed in
  it.\<close>

datatype restore_message =
    BackupFileNotFound
  | DestinationDoesNotExist
  | FailedToCreateBackup string
  | NoFilesExtracted
  | SuccessfullyRestored nat nat nat
  | BackupCorrupted
  | FailedToExtract string
  | RestoreFailed string

text \<open>What a restore does to the file system, in order: the safety copy of the whole
  destination (source directory, its content, target directory, whether \<^verbatim>\<open>copytree\<close>
  returned) and each entry written into the destination.\<close>

datatype restore_event =
    CopyTree string "string list" string bool
  | Extract string

record counters =
  extracted_count :: nat
  skipped_count :: nat
  error_count :: nat

text \<open>The loop over the entries (lines 180-195).\<close>

fun extract_files :: "zip_entry list \<Rightarrow> counters \<Rightarrow> counters \<times> restore_event list" where
  "extract_files [] c = (c, [])"
| "extract_files (f # fs) c =
     (if is_skipped (entry_file_name f)
      then extract_files fs (c\<lparr>skipped_count := skipped_count c + 1\<rparr>)
      else
        (case on_extract f of
           Written \<Rightarrow>
             (let (c', es) = extract_files fs (c\<lparr>extracted_count := extracted_count c + 1\<rparr>)
              in (c', Extract (entry_file_name f) # es))
         | PermissionError \<Rightarrow> extract_files fs (c\<lparr>skipped_count := skipped_count c + 1\<rparr>)
         | ExtractError ex \<Rightarrow> extract_files fs (c\<lparr>error_count := error_count c + 1\<rparr>)))"

text \<open>Lines 166-211: opening the archive and extracting.\<close>

definition extract_backup :: "restore_world \<Rightarrow> bool \<times> restore_message \<times> restore_event list" where
  "extract_backup w =
     (case backup_archive w of
        BadZipFile \<Rightarrow> (False, BackupCorrupted, [])
      | OpenError ex \<Rightarrow> (False, FailedToExtract ex, [])
      | Namelist file_list \<Rightarrow>
          (let (c, es) = extract_files file_list
                 \<lparr>extracted_count = 0, skipped_count = 0, error_count = 0\<rparr>
           in if extracted_count c = 0 then (False, NoFilesExtracted, es)
              else (True,
                    SuccessfullyRestored (extracted_count c) (skipped_count c) (error_count c),
                    es)))"

text \<open>\<^verbatim>\<open>restore_backup\<close> (lines 129-214): success flag, message and what was done. The safety
  copy goes to the sibling \<^verbatim>\<open>{name}_backup_{timestamp}\<close> of the destination.\<close>

definition restore_backup :: "restore_world \<Rightarrow> bool
    \<Rightarrow> bool \<times> restore_message \<times> restore_event list" where
  "restore_backup w create_backup =
     (if \<not> backup_file_exists w then (False, BackupFileNotFound, [])
      else
        (case dest w of
           DestMissing \<Rightarrow> (False, DestinationDoesNotExist, [])
         | DestNotListable ex \<Rightarrow>
             if create_backup then (False, RestoreFailed ex, []) else extract_backup w
         | DestDir content \<Rightarrow>
             if create_backup \<and> content \<noteq> [] then
               (let backup_dest =
                      dest_parent w @ ''/'' @ dest_name w @ ''_backup_'' @ restore_stamp w;
                    dest_path = dest_parent w @ ''/'' @ dest_name w
                in case copytree w of
                     Some ex \<Rightarrow>
                       (False, FailedToCreateBackup ex,
                        [CopyTree dest_path content backup_dest False])
                   | None \<Rightarrow>
                       (let (ok, msg, es) = extract_backup w
                        in (ok, msg, CopyTree dest_path content backup_dest True # es)))
             else extract_backup w))"

text \<open>The entries a run wrote into the destination.\<close>

fun extracted_files :: "restore_event list \<Rightarrow> string list" where
  "extracted_files [] = []"
| "extracted_files (Extract f # es) = f # extracted_files es"
| "extracted_files (e # es) = extracted_files es"

section \<open>Restore engine (restore\_service.py): timestamps of file names\<close>

text \<open>A \<^verbatim>\<open>datetime\<close>: year, month, day, hour, minute, second. Python compares two of them field
  by field in this order, which is the lexicographic order of the tuples.\<close>

type_synonym datetime = "nat \<times> nat \<times> nat \<times> nat \<times> nat \<times> nat"

definition datetime_min :: datetime where
  "datetime_min = (1, 1, 1, 0, 0, 0)"

text \<open>File names are strings over HOL's 8-bit characters; among these only \<^verbatim>\<open>0\<close> to \<^verbatim>\<open>9\<close> are
  decimal digits. \<^verbatim>\<open>str.replace(old, new)\<close> for a non-empty \<^verbatim>\<open>old\<close> (the source passes \<^verbatim>\<open>.zip\<close>
  and \<^verbatim>\<open>-\<close>): every occurrence, left to right, without overlaps. \<^verbatim>\<open>str.split(sep)\<close> for a
  one-character separator.\<close>

fun str_replace :: "string \<Rightarrow> string \<Rightarrow> string \<Rightarrow> string" where
  "str_replace old new [] = []"
| "str_replace old new (c # cs) =
     (if old \<noteq> [] \<and> take (length old) (c # cs) = old
      then new @ str_replace old new (drop (length old - 1) cs)
      else c # str_replace old new cs)"

fun split_on :: "char \<Rightarrow> string \<Rightarrow> string list" where
  "split_on sep [] = [[]]"
| "split_on sep (c # cs) =
     (if c = sep then [] # split_on sep cs
      else (case split_on sep cs of
              [] \<Rightarrow> [[c]]
            | p # ps \<Rightarrow> (c # p) # ps))"

text \<open>Character classes of the patterns.\<close>

definition in_range :: "char \<Rightarrow> char \<Rightarrow> char \<Rightarrow> bool" where
  "in_range lo hi c = ((of_char lo :: nat) \<le> of_char c \<and> (of_char c :: nat) \<le> of_char hi)"

definition is_digit :: "char \<Rightarrow> bool" where
  "is_digit c = in_range CHR ''0'' CHR ''9'' c"

definition digit_val :: "char \<Rightarrow> nat" where
  "digit_val c = of_char c - 48"

text \<open>\<^verbatim>\<open>int(text)\<close> of a matched group: decimal digits, after an optional blank.\<close>

definition py_int :: "string \<Rightarrow> nat" where
  "py_int s = foldl (\<lambda>n c. 10 * n + digit_val c) 0 (dropWhile (\<lambda>c. c = CHR '' '') s)"

text \<open>The pattern of a format directive in the standard library's \<^verbatim>\<open>strptime\<close>: alternatives
  in the order the regular expression lists them, each a sequence of character classes.
  \<^verbatim>\<open>%Y\<close> is \<^verbatim>\<open>\d\d\d\d\<close>; \<^verbatim>\<open>%m\<close> is \<^verbatim>\<open>1[0-2]|0[1-9]|[1-9]\<close>; \<^verbatim>\<open>%d\<close> is
  \<^verbatim>\<open>3[0-1]|[1-2]\d|0[1-9]|[1-9]| [1-9]\<close>; \<^verbatim>\<open>%H\<close> is \<^verbatim>\<open>2[0-3]|[0-1]\d|\d\<close>; \<^verbatim>\<open>%M\<close> is \<^verbatim>\<open>[0-5]\d|\d\<close>;
  \<^verbatim>\<open>%S\<close> is \<^verbatim>\<open>6[0-1]|[0-5]\d|\d\<close>.\<close>

definition directive :: "char \<Rightarrow> (char \<Rightarrow> bool) list list" where
  "directive d =
     (if d = CHR ''Y'' then [[is_digit, is_digit, is_digit, is_digit]]
      else if d = CHR ''m'' then
        [[in_range CHR ''1'' CHR ''1'', in_range CHR ''0'' CHR ''2''],
         [in_range CHR ''0'' CHR ''0'', in_range CHR ''1'' CHR ''9''],
         [in_range CHR ''1'' CHR ''9'']]
      else if d = CHR ''d'' then
        [[in_range CHR ''3'' CHR ''3'', in_range CHR ''0'' CHR ''1''],
         [in_range CHR ''1'' CHR ''2'', is_digit],
         [in_range CHR ''0'' CHR ''0'', in_range CHR ''1'' CHR ''9''],
         [in_range CHR ''1'' CHR ''9''],
         [in_range CHR '' '' CHR '' '', in_range CHR ''1'' CHR ''9'']]
      else if d = CHR ''H'' then
        [[in_range CHR ''2'' CHR ''2'', in_range CHR ''0'' CHR ''3''],
         [in_range CHR ''0'' CHR ''1'', is_digit],
         [is_digit]]
      else if d = CHR ''M'' then
        [[in_range CHR ''0'' CHR ''5'', is_digit],
         [is_digit]]
      else if d = CHR ''S'' then
        [[in_range CHR ''6'' CHR ''6'', in_range CHR ''0'' CHR ''1''],
         [in_range CHR ''0'' CHR ''5'', is_digit],
         [is_digit]]
      else [])"

text \<open>Matching one alternative at the start of a text: the matched text and the rest.\<close>

fun match_alt :: "(char \<Rightarrow> bool) list \<Rightarrow> string \<Rightarrow> (string \<times> string) option" where
  "match_alt [] s = Some ([], s)"
| "match_alt (p # ps) [] = None"
| "match_alt (p # ps) (c # cs) =
     (if p c then (case match_alt ps cs of
                     None \<Rightarrow> None
                   | Some (m, r) \<Rightarrow> Some (c # m, r))
      else None)"

text \<open>All the ways a directive matches at the start of a text, in the order in which the
  backtracking matcher tries them.\<close>

definition match_directive :: "char \<Rightarrow> string \<Rightarrow> (string \<times> string) list" where
  "match_directive d s = List.map_filter (\<lambda>a. match_alt a s) (directive d)"

text \<open>All the ways a format matches at the start of a text, in the order of the matcher:
  the groups found and the text left over. A character of the format other than a
  directive stands for itself.\<close>

fun match_format :: "string \<Rightarrow> string \<Rightarrow> ((char \<times> string) list \<times> string) list" where
  "match_format [] s = [([], s)]"
| "match_format [f] s =
     (case s of [] \<Rightarrow> [] | c # cs \<Rightarrow> if c = f then [([], cs)] else [])"
| "match_format (f # d # fs) s =
     (if f = CHR ''%'' then
        concat (map (\<lambda>(m, r). map (\<lambda>(g, r'). ((d, m) # g, r')) (match_format fs r))
                  (match_directive d s))
      else (case s of
              [] \<Rightarrow> []
            | c # cs \<Rightarrow> if c = f then match_format (d # fs) cs else []))"

definition is_leap :: "nat \<Rightarrow> bool" where
  "is_leap y = (y mod 4 = 0 \<and> (y mod 100 \<noteq> 0 \<or> y mod 400 = 0))"

definition days_in_month :: "nat \<Rightarrow> nat \<Rightarrow> nat" where
  "days_in_month y m =
     (if m = 2 then (if is_leap y then 29 else 28)
      else if m = 4 \<or> m = 6 \<or> m = 9 \<or> m = 11 then 30 else 31)"

text \<open>The constructor of \<^verbatim>\<open>datetime\<close> accepts years 1..9999, a day of the month that exists and
  a time of day below 24:00:00.\<close>

definition valid_datetime :: "datetime \<Rightarrow> bool" where
  "valid_datetime dt =
     (case dt of (y, m, d, hh, mm, ss) \<Rightarrow>
        1 \<le> y \<and> y \<le> 9999 \<and> 1 \<le> m \<and> m \<le> 12 \<and> 1 \<le> d \<and> d \<le> days_in_month y m \<and>
        hh \<le> 23 \<and> mm \<le> 59 \<and> ss \<le> 59)"

definition group_value :: "(char \<times> string) list \<Rightarrow> char \<Rightarrow> nat \<Rightarrow> nat" where
  "group_value found d dflt = (case map_of found d of None \<Rightarrow> dflt | Some m \<Rightarrow> py_int m)"

text \<open>\<^verbatim>\<open>datetime.strptime(data_string, format)\<close> for formats made of the six directives and
  literal characters; \<open>None\<close> is \<^verbatim>\<open>ValueError\<close>. The first match of the pattern is taken; text
  left over after it, or a date that does not exist, is an error.\<close>

definition strptime :: "string \<Rightarrow> string \<Rightarrow> datetime option" where
  "strptime data_string fmt =
     (case match_format fmt data_string of
        [] \<Rightarrow> None
      | (found, rest) # _ \<Rightarrow>
          if rest \<noteq> [] then None
          else
            (let dt = (group_value found CHR ''Y'' 1900, group_value found CHR ''m'' 1,
                       group_value found CHR ''d'' 1, group_value found CHR ''H'' 0,
                       group_value found CHR ''M'' 0, group_value found CHR ''S'' 0)
             in if valid_datetime dt then Some dt else None))"

text \<open>Lines 30-49 of \<^verbatim>\<open>BackupInfo._extract_timestamp\<close>: the date and time tokens are joined
  with an underscore and parsed, first with dashes, then without, then without after the
  dashes have been taken out of the text. Each \<^verbatim>\<open>ValueError\<close> is caught.\<close>

definition parse_tokens :: "string \<Rightarrow> string \<Rightarrow> datetime option" where
  "parse_tokens date_str time_str =
     (let timestamp_str = date_str @ ''_'' @ time_str
      in case strptime timestamp_str ''%Y-%m-%d_%H-%M-%S'' of
           Some t \<Rightarrow> Some t
         | None \<Rightarrow>
             (case strptime timestamp_str ''%Y%m%d_%H%M%S'' of
                Some t \<Rightarrow> Some t
              | None \<Rightarrow> strptime (str_replace ''-'' [] timestamp_str) ''%Y%m%d_%H%M%S''))"

text \<open>\<^verbatim>\<open>BackupInfo._extract_timestamp\<close> (lines 20-53).\<close>

definition extract_timestamp :: "string \<Rightarrow> datetime option" where
  "extract_timestamp filename =
     (let parts = split_on CHR ''_'' (str_replace ''.zip'' [] filename)
      in if length parts \<ge> 3
         then parse_tokens (parts ! (length parts - 2)) (parts ! (length parts - 1))
         else None)"

section \<open>Restore engine (restore\_service.py): discovery\<close>

text \<open>\<^verbatim>\<open>BackupInfo\<close>. Its constructor reads the size of the file, which can raise (\<open>None\<close>); the
  caller then skips the file.\<close>

record BackupInfo =
  filepath :: string
  info_server_id :: string
  info_server_name :: string
  timestamp :: "datetime option"
  size_bytes :: nat

record zip_on_disk =
  zip_path :: string
  zip_name :: string
  zip_size :: "nat option"

definition new_BackupInfo :: "zip_on_disk \<Rightarrow> string \<Rightarrow> string \<Rightarrow> BackupInfo option" where
  "new_BackupInfo f sid sname =
     (case zip_size f of
        None \<Rightarrow> None
      | Some n \<Rightarrow>
          Some \<lparr>filepath = zip_path f, info_server_id = sid, info_server_name = sname,
                timestamp = extract_timestamp (zip_name f), size_bytes = n\<rparr>)"

text \<open>What the scan sees under the backup directory: for each child its name, whether it is
  a directory, the files \<^verbatim>\<open>glob("*.zip")\<close> gives in it, and its own children with their
  \<^verbatim>\<open>*.zip\<close> files, all in the order of iteration.\<close>

record subfolder =
  sub_is_dir :: bool
  sub_zips :: "zip_on_disk list"

record server_folder =
  folder_name :: string
  folder_is_dir :: bool
  folder_zips :: "zip_on_disk list"
  folder_children :: "subfolder list"

text \<open>Lines 98-122 for one child of the backup directory. In the dictionary of server names
  a later server of the same id overwrites an earlier one.\<close>

definition scan_server_folder :: "ServerConfig list \<Rightarrow> server_folder \<Rightarrow> BackupInfo list" where
  "scan_server_folder servers server_dir =
     (if \<not> folder_is_dir server_dir then []
      else
        (let sid = folder_name server_dir;
             sname = (case map_of (rev (map (\<lambda>s. (server_id s, server_name s)) servers)) sid of
                        None \<Rightarrow> ''Server '' @ sid
                      | Some n \<Rightarrow> n)
         in List.map_filter (\<lambda>f. new_BackupInfo f sid sname) (folder_zips server_dir)
            @ concat (map (\<lambda>subdir.
                             if sub_is_dir subdir
                             then List.map_filter (\<lambda>f. new_BackupInfo f sid sname)
                                    (sub_zips subdir)
                             else [])
                        (folder_children server_dir))))"

text \<open>Line 125: \<^verbatim>\<open>backups.sort(key=..., reverse=True)\<close>. The key of a snapshot without
  timestamp is \<^verbatim>\<open>datetime.min\<close>. Python's sort is stable also with \<^verbatim>\<open>reverse=True\<close>: it sorts the
  reversed list in ascending order, stably, and reverses the result.\<close>

definition sort_key_of :: "BackupInfo \<Rightarrow> datetime" where
  "sort_key_of b = (case timestamp b of None \<Rightarrow> datetime_min | Some t \<Rightarrow> t)"

definition sort_backups :: "BackupInfo list \<Rightarrow> BackupInfo list" where
  "sort_backups backups = rev (sort_key sort_key_of (rev backups))"

text \<open>\<^verbatim>\<open>discover_backups\<close> (lines 78-127); \<open>None\<close> is a backup directory that does not exist.\<close>

definition discover_backups :: "server_folder list option \<Rightarrow> ServerConfig list
    \<Rightarrow> BackupInfo list" where
  "discover_backups backup_dir servers =
     (case backup_dir of
        None \<Rightarrow> []
      | Some server_dirs \<Rightarrow>
          sort_backups (concat (map (scan_server_folder servers) server_dirs)))"

section \<open>Timestamps as text\<close>






section \<open>Concrete scenarios\<close>

definition at_0330 :: time_of_day where
  "at_0330 = \<lparr>hour = 3, minute = 30, second = 0\<rparr>"

definition at_0400 :: time_of_day where
  "at_0400 = \<lparr>hour = 4, minute = 0, second = 0\<rparr>"

text \<open>A weekly schedule for Monday only, and one for Sunday only.\<close>

definition monday_weekly :: BackupSchedule where
  "monday_weekly =
     (default_BackupSchedule at_0330)
       \<lparr>schedule_id := ''s1'', schedule_type := WEEKLY, days_of_week := [0]\<rparr>"

definition sunday_weekly :: BackupSchedule where
  "sunday_weekly =
     (default_BackupSchedule at_0330)
       \<lparr>schedule_id := ''s1'', schedule_type := WEEKLY, days_of_week := [6]\<rparr>"

text \<open>A daily schedule and an edited copy of it under the same id.\<close>

definition first_definition :: BackupSchedule where
  "first_definition =
     (default_BackupSchedule at_0330)\<lparr>schedule_id := ''s1'', server_ids := [''A'']\<rparr>"

definition edited_definition :: BackupSchedule where
  "edited_definition =
     (default_BackupSchedule at_0400)\<lparr>schedule_id := ''s1'', server_ids := [''B'']\<rparr>"

text \<open>Three enabled servers and a schedule over them with OneDrive upload switched on. In
  \<open>demo_world\<close> only server A is running, the save path of B is gone, every archive is
  written, and the OneDrive upload raises.\<close>

definition srvA :: ServerConfig where
  "srvA = \<lparr>server_id = ''A'', server_name = ''Alpha'', game_type = [], server_path = [],
            save_game_path = ''/saves/A'', enabled = True\<rparr>"

definition srvB :: ServerConfig where
  "srvB = \<lparr>server_id = ''B'', server_name = ''Beta'', game_type = [], server_path = [],
            save_game_path = ''/saves/B'', enabled = True\<rparr>"

definition srvC :: ServerConfig where
  "srvC = \<lparr>server_id = ''C'', server_name = ''Gamma'', game_type = [], server_path = [],
            save_game_path = ''/saves/C'', enabled = True\<rparr>"

definition demo_schedule :: BackupSchedule where
  "demo_schedule =
     (default_BackupSchedule at_0330)
       \<lparr>schedule_id := ''s1'', server_ids := [''A'', ''B'', ''C''], backup_path := ''/backups'',
        enable_cloud_backup := True, cloud_backup_type := ONEDRIVE\<rparr>"

definition demo_service :: SchedulerService where
  "demo_service = \<lparr>schedules = [demo_schedule], jobs = []\<rparr>"

definition demo_world :: world where
  "demo_world =
     \<lparr>is_server_running = (\<lambda>sid. Inr (sid = ''A'')),
      stop_server = (\<lambda>sid. Inr True),
      start_server = (\<lambda>sid. Inr True),
      path_exists = (\<lambda>p. p \<noteq> ''/saves/B''),
      write_archive = (\<lambda>src dst. Inr ()),
      stat_size = (\<lambda>p. Inr 1024),
      onedrive_service = Some \<lparr>is_ready = True, upload_backup = (\<lambda>f p. Inl ''timed out'')\<rparr>,
      google_cloud_service = None,
      now_strftime = ''2024-03-01_14-30-00'',
      now_time = at_0330,
      now_start = 0,
      now_end = 60,
      uuid4 = ''job-1'',
      config_servers = [],
      backup_completed_callback = Some (\<lambda>job. Inr ())\<rparr>"


text \<open>One server directory with three snapshot directories, modified 6, 7 and 8 days before
  \<open>sweep_time\<close>.\<close>

definition sweep_time :: real where
  "sweep_time = 1000000"

definition six_days_old :: snapshot_entry where
  "six_days_old = \<lparr>entry_name = ''six'', entry_is_dir = True,
      entry_mtime = Some (sweep_time - 6 * 86400), entry_removable = True\<rparr>"

definition seven_days_old :: snapshot_entry where
  "seven_days_old = \<lparr>entry_name = ''seven'', entry_is_dir = True,
      entry_mtime = Some (sweep_time - 7 * 86400), entry_removable = True\<rparr>"

definition eight_days_old :: snapshot_entry where
  "eight_days_old = \<lparr>entry_name = ''eight'', entry_is_dir = True,
      entry_mtime = Some (sweep_time - 8 * 86400), entry_removable = True\<rparr>"

definition three_snapshots :: "server_entry list" where
  "three_snapshots =
     [\<lparr>srv_name = ''A'', srv_is_dir = True,
       srv_listing = Some [six_days_old, seven_days_old, eight_days_old]\<rparr>]"

text \<open>An archive that holds only executables, and a restore whose safety copy fails.\<close>

definition only_executables :: restore_world where
  "only_executables =
     \<lparr>backup_file_exists = True,
      backup_archive = Namelist
        [\<lparr>entry_file_name = ''server.exe'', on_extract = Written\<rparr>,
         \<lparr>entry_file_name = ''bin/Tool.DLL'', on_extract = Written\<rparr>],
      dest_parent = ''/srv'', dest_name = ''saves'', dest = DestDir [''world.sav''],
      copytree = None, restore_stamp = ''20240301_143000''\<rparr>"

definition copy_fails :: restore_world where
  "copy_fails =
     \<lparr>backup_file_exists = True,
      backup_archive = Namelist
        [\<lparr>entry_file_name = ''save.dat'', on_extract = Written\<rparr>,
         \<lparr>entry_file_name = ''server.exe'', on_extract = Written\<rparr>],
      dest_parent = ''/srv'', dest_name = ''saves'', dest = DestDir [''world.sav''],
      copytree = Some ''disk full'', restore_stamp = ''20240301_143000''\<rparr>"

definition copy_succeeds :: restore_world where
  "copy_succeeds = copy_fails\<lparr>copytree := None\<rparr>"

text \<open>A server folder \<^verbatim>\<open>A\<close> that holds the given archives, in this order, and nothing else.\<close>

definition zip_named :: "string \<Rightarrow> zip_on_disk" where
  "zip_named n = \<lparr>zip_path = ''/backups/A/'' @ n, zip_name = n, zip_size = Some 1024\<rparr>"

definition folder_with :: "string list \<Rightarrow> server_folder" where
  "folder_with names =
     \<lparr>folder_name = ''A'', folder_is_dir = True, folder_zips = map zip_named names,
      folder_children = []\<rparr>"

definition unparsed_then_two :: "server_folder list" where
  "unparsed_then_two =
     [folder_with [''S_backup.zip'', ''S_2024-03-01_10-00-00.zip'',
                   ''S_2024-03-01_12-00-00.zip'']]"

definition unparsed_then_year_one :: "server_folder list" where
  "unparsed_then_year_one =
     [folder_with [''S_backup.zip'', ''S_0001-01-01_00-00-00.zip'']]"

section \<open>Scheduler: trigger registration\<close>

lemma add_job_filter:
  "distinct (map fst js) \<Longrightarrow>
   filter (\<lambda>j. fst j = jid) (add_job jid trg arg js) = [(jid, trg, arg)]"
proof (induction js)
  case Nil
  then show ?case by simp
next
  case (Cons j js)
  show ?case
  proof (cases "fst j = jid")
    case True
    with Cons.prems have "jid \<notin> fst ` set js" by auto
    then have "filter (\<lambda>j. fst j = jid) js = []"
      by (auto simp: filter_empty_conv)
    with True show ?thesis by simp
  next
    case False
    with Cons show ?thesis by simp
  qed
qed

lemma add_job_fst: "fst ` set (add_job jid trg arg js) = insert jid (fst ` set js)"
  by (induction js) auto

lemma add_job_distinct:
  "distinct (map fst js) \<Longrightarrow> distinct (map fst (add_job jid trg arg js))"
proof (induction js)
  case Nil
  then show ?case by simp
next
  case (Cons j js)
  then show ?case using add_job_fst [of jid trg arg js] by (auto simp: image_iff)
qed

text \<open>Re-adding an enabled schedule leaves one trigger under its id, the one of the
  definition added last: \<^verbatim>\<open>replace_existing=True\<close> does its work on the job store.\<close>

lemma active_triggers_add_schedule:
  assumes "distinct (map fst (jobs svc))" "sched_enabled s" "make_trigger s = Inr trg"
  shows "active_triggers (fst (add_schedule svc s)) (schedule_id s) = [trg]"
    and "distinct (map fst (jobs (fst (add_schedule svc s))))"
  using assms
  by (simp_all add: add_schedule_def active_triggers_def add_job_filter add_job_distinct)

lemma find_snoc:
  "find P (xs @ [x]) =
     (case find P xs of Some y \<Rightarrow> Some y | None \<Rightarrow> if P x then Some x else None)"
  by (induction xs) auto

text \<open>The list of schedules is only ever appended to, and the lookup takes the first hit:
  a definition already stored under an id shadows every later one.\<close>

lemma get_schedule_add_schedule:
  "get_schedule (fst (add_schedule svc s)) sid =
     (case get_schedule svc sid of
        Some s0 \<Rightarrow> Some s0
      | None \<Rightarrow> if schedule_id s = sid then Some s else None)"
  by (auto simp: get_schedule_def add_schedule_def Let_def find_snoc
           split: option.splits sum.splits)

text \<open>A weekly trigger that is accepted fires on the days of the schedule shifted by one;
  a schedule that lists Sunday (6) is rejected by the trigger's constructor.\<close>

lemma make_trigger_weekly:
  "schedule_type s = WEEKLY \<Longrightarrow> make_trigger s = Inr trg \<Longrightarrow>
   fire_days trg = (\<lambda>d. d + 1) ` set (days_of_week s) \<and>
   fire_time trg = Some (hour (time s), minute (time s))"
  by (auto simp: make_trigger_def cron_day_of_week_def Let_def split: if_splits)

lemma make_trigger_weekly_sunday:
  "schedule_type s = WEEKLY \<Longrightarrow> 6 \<in> set (days_of_week s) \<Longrightarrow>
   make_trigger s = Inl ValueError"
  by (auto simp: make_trigger_def cron_day_of_week_def Let_def split: if_splits)

text \<open>Claim C2 (weekly trigger fires on exactly the days of \<^verbatim>\<open>daysOfWeek\<close>, 0 = Monday ..
  6 = Sunday), evaluated on the code: for an enabled weekly schedule with
  \<^verbatim>\<open>days_of_week = [0]\<close> (Monday), \<^verbatim>\<open>add_schedule\<close> registers one trigger at 03:30 whose only
  fire day is 1, Tuesday in the library's numbering, and Monday is not a fire day; for
  \<^verbatim>\<open>days_of_week = [6]\<close> (Sunday) the constructor of the trigger raises \<^verbatim>\<open>ValueError\<close> and no
  trigger is registered. The conversion \<^verbatim>\<open>d + 1\<close> of line 65 shifts every day by one.\<close>

theorem add_schedule_weekly_shifts_days:
  "map fire_days (active_triggers (fst (add_schedule new_SchedulerService monday_weekly)) ''s1'')
     = [{1}] \<and>
   map fire_time (active_triggers (fst (add_schedule new_SchedulerService monday_weekly)) ''s1'')
     = [Some (3, 30)] \<and>
   set (days_of_week monday_weekly) = {0} \<and>
   add_schedule new_SchedulerService sunday_weekly
     = (\<lparr>schedules = [sunday_weekly], jobs = []\<rparr>, Some ValueError)"
  by (simp add: monday_weekly_def sunday_weekly_def at_0330_def default_BackupSchedule_def
      add_schedule_def new_SchedulerService_def make_trigger_def cron_day_of_week_def
      active_triggers_def)

text \<open>Claim C3 (adding a schedule twice under one id leaves one trigger, and fires and
  lookups use the latest definition), evaluated on the code: after \<^verbatim>\<open>add_schedule\<close> of a
  daily schedule for server A at 03:30 and then of an edited copy with the same id for
  server B at 04:00, the one active trigger is the edited one (04:00), but
  \<^verbatim>\<open>get_schedule\<close>, which a fire calls to find what to back up, returns the first definition
  (server A), and a run of the schedule over servers A, B and C backs up server A.\<close>

theorem add_schedule_twice_keeps_first_definition:
  "active_triggers
     (fst (add_schedule (fst (add_schedule new_SchedulerService first_definition))
        edited_definition)) ''s1''
     = [CronTrigger None 4 0] \<and>
   get_schedule
     (fst (add_schedule (fst (add_schedule new_SchedulerService first_definition))
        edited_definition)) ''s1''
     = Some first_definition \<and>
   server_ids first_definition = [''A''] \<and> server_ids edited_definition = [''B''] \<and>
   schedule_id edited_definition = schedule_id first_definition \<and>
   map res_server_id
     (server_results (fst (execute_backup_async demo_world
        (fst (add_schedule (fst (add_schedule new_SchedulerService first_definition))
           edited_definition)) ''s1'' (Some [srvA, srvB, srvC]))))
     = [''A'']"
  by (simp add: first_definition_def edited_definition_def at_0330_def at_0400_def
      default_BackupSchedule_def add_schedule_def new_SchedulerService_def make_trigger_def
      active_triggers_def get_schedule_def execute_backup_async_def resolve_schedule_def
      enabled_servers_def srvA_def srvB_def srvC_def backup_one_def backup_server_def
      cloud_step_def demo_world_def new_result_def Let_def)

section \<open>Job executor: per-server isolation\<close>

lemma backup_server_id:
  "res_server_id (fst (backup_server w x bp)) = server_id x"
  by (simp add: backup_server_def new_result_def Let_def split: sum.splits)

lemma backup_server_missing:
  "\<not> path_exists w (save_game_path x) \<Longrightarrow> \<not> success (fst (backup_server w x bp))"
  by (simp add: backup_server_def Let_def)

lemma backup_server_no_cloud:
  "\<not> cloud_backup_success (fst (backup_server w x bp))"
  by (simp add: backup_server_def new_result_def Let_def split: sum.splits)

lemma upload_to_keeps:
  "success (fst (upload_to k c p r)) = success r"
  "res_server_id (fst (upload_to k c p r)) = res_server_id r"
  "res_backup_path (fst (upload_to k c p r)) = res_backup_path r"
  "error_message (fst (upload_to k c p r)) = error_message r"
  "backup_size_bytes (fst (upload_to k c p r)) = backup_size_bytes r"
  by (simp_all add: upload_to_def split: option.splits sum.splits)

lemma cloud_step_keeps:
  "success (fst (cloud_step w s x r)) = success r"
  "res_server_id (fst (cloud_step w s x r)) = res_server_id r"
  "res_backup_path (fst (cloud_step w s x r)) = res_backup_path r"
  "error_message (fst (cloud_step w s x r)) = error_message r"
  "backup_size_bytes (fst (cloud_step w s x r)) = backup_size_bytes r"
  by (simp_all add: cloud_step_def upload_to_keeps split: CloudBackupType.splits)

text \<open>A server whose archive step fails gets one failed result, whatever the process
  collaborator answers or raises for it.\<close>

lemma backup_one_failed_archive:
  assumes "\<not> success (fst (backup_server w x (backup_path s)))"
  shows "\<exists>r. fst (backup_one w s x) = [r] \<and> \<not> success r \<and> res_server_id r = server_id x"
proof (cases "is_server_running w (server_id x)")
  case (Inl ex)
  then show ?thesis by (simp add: backup_one_def failed_result_def new_result_def)
next
  case (Inr running)
  show ?thesis
  proof (cases "running \<and> isl (stop_server w (server_id x))")
    case True
    with Inr show ?thesis
      by (auto simp: backup_one_def failed_result_def new_result_def isl_def)
  next
    case False
    with Inr assms show ?thesis
      by (auto simp: backup_one_def cloud_step_keeps backup_server_id split_beta Let_def
               split: sum.splits)
  qed
qed

lemma backup_one_ok:
  assumes "is_server_running w (server_id x) = Inr running"
    and "running \<longrightarrow> \<not> isl (stop_server w (server_id x))"
    and "success (fst (backup_server w x (backup_path s)))"
    and "\<not> isl (start_server w (server_id x))"
  shows "\<exists>r. fst (backup_one w s x) = [r] \<and> success r \<and> res_server_id r = server_id x"
  using assms
  by (auto simp: backup_one_def cloud_step_keeps backup_server_id split_beta Let_def
           split: sum.splits)

lemma backup_all_Cons:
  "fst (backup_all w s (x # xs)) = fst (backup_one w s x) @ fst (backup_all w s xs)"
  "snd (backup_all w s (x # xs)) = snd (backup_one w s x) @ snd (backup_all w s xs)"
  by (simp_all add: split_beta)

lemma backup_all_Nil: "fst (backup_all w s []) = []" "snd (backup_all w s []) = []"
  by simp_all

lemma backup_all_mem:
  assumes "x \<in> set xs"
  shows "set (fst (backup_one w s x)) \<subseteq> set (fst (backup_all w s xs))"
    and "set (snd (backup_one w s x)) \<subseteq> set (snd (backup_all w s xs))"
  using assms by (induction xs) (auto simp: split_beta)

lemma execute_results:
  "server_results (fst (execute_backup_async w svc sid servers_opt)) =
   fst (backup_all w (resolve_schedule w svc sid)
         (enabled_servers (resolve_schedule w svc sid)
            (case servers_opt of None \<Rightarrow> config_servers w | Some l \<Rightarrow> l)))"
  by (simp add: execute_backup_async_def Let_def split_beta split: option.splits sum.splits)

lemma execute_events:
  "set (snd (backup_all w (resolve_schedule w svc sid)
         (enabled_servers (resolve_schedule w svc sid)
            (case servers_opt of None \<Rightarrow> config_servers w | Some l \<Rightarrow> l))))
   \<subseteq> set (snd (execute_backup_async w svc sid servers_opt))"
  by (auto simp: execute_backup_async_def Let_def split_beta split: option.splits sum.splits)

lemma execute_status_failed:
  "\<not> list_all success (server_results (fst (execute_backup_async w svc sid servers_opt))) \<Longrightarrow>
   status (fst (execute_backup_async w svc sid servers_opt)) = FAILED"
  by (simp add: execute_backup_async_def Let_def split_beta split: option.splits sum.splits)

text \<open>Claim C1 (partial-failure isolation). A job over a schedule whose enabled targets are
  \<open>[A, B, C]\<close>, where the save path of B does not exist and the steps for A and C go through
  (the process collaborator answers, the archive is written, the restart returns), has three
  results in server order, successful for A and C and failed for B, and status
  \<^verbatim>\<open>failed\<close>. Nothing is assumed about what the process collaborator does for B.\<close>

theorem partial_failure_isolation:
  assumes sched: "get_schedule svc sid = Some schedule"
    and targets: "enabled_servers schedule servers = [A, B, C]"
    and missing: "\<not> path_exists w (save_game_path B)"
    and healthy: "\<forall>x \<in> {A, C}.
        (\<exists>running. is_server_running w (server_id x) = Inr running \<and>
           (running \<longrightarrow> \<not> isl (stop_server w (server_id x)))) \<and>
        success (fst (backup_server w x (backup_path schedule))) \<and>
        \<not> isl (start_server w (server_id x))"
  shows "map res_server_id (server_results (fst (execute_backup_async w svc sid (Some servers))))
           = [server_id A, server_id B, server_id C] \<and>
         map success (server_results (fst (execute_backup_async w svc sid (Some servers))))
           = [True, False, True] \<and>
         status (fst (execute_backup_async w svc sid (Some servers))) = FAILED"
proof -
  have rs: "resolve_schedule w svc sid = schedule"
    by (simp add: resolve_schedule_def sched)
  from healthy obtain ra where ra: "fst (backup_one w schedule A) = [ra]" "success ra"
    "res_server_id ra = server_id A"
    using backup_one_ok [of w A _ schedule] by blast
  from healthy obtain rc where rc: "fst (backup_one w schedule C) = [rc]" "success rc"
    "res_server_id rc = server_id C"
    using backup_one_ok [of w C _ schedule] by blast
  from missing obtain rb where rb: "fst (backup_one w schedule B) = [rb]" "\<not> success rb"
    "res_server_id rb = server_id B"
    using backup_one_failed_archive [OF backup_server_missing] by blast
  have res: "server_results (fst (execute_backup_async w svc sid (Some servers))) = [ra, rb, rc]"
    by (simp add: execute_results rs targets backup_all_Cons backup_all_Nil ra rb rc
             del: backup_all.simps)
  moreover have "status (fst (execute_backup_async w svc sid (Some servers))) = FAILED"
    by (rule execute_status_failed) (simp add: res rb)
  ultimately show ?thesis using ra rb rc by simp
qed

theorem partial_failure_isolation_witness:
  "get_schedule demo_service ''s1'' = Some demo_schedule \<and>
   enabled_servers demo_schedule [srvA, srvB, srvC] = [srvA, srvB, srvC] \<and>
   \<not> path_exists demo_world (save_game_path srvB) \<and>
   map res_server_id
     (server_results (fst (execute_backup_async demo_world demo_service ''s1''
        (Some [srvA, srvB, srvC])))) = [''A'', ''B'', ''C''] \<and>
   map success
     (server_results (fst (execute_backup_async demo_world demo_service ''s1''
        (Some [srvA, srvB, srvC])))) = [True, False, True] \<and>
   status (fst (execute_backup_async demo_world demo_service ''s1''
        (Some [srvA, srvB, srvC]))) = FAILED"
proof -
  have sched: "get_schedule demo_service ''s1'' = Some demo_schedule"
    by (simp add: get_schedule_def demo_service_def demo_schedule_def)
  have targets: "enabled_servers demo_schedule [srvA, srvB, srvC] = [srvA, srvB, srvC]"
    by (simp add: enabled_servers_def demo_schedule_def srvA_def srvB_def srvC_def)
  have missing: "\<not> path_exists demo_world (save_game_path srvB)"
    by (simp add: demo_world_def srvB_def)
  have healthy: "\<forall>x \<in> {srvA, srvC}.
        (\<exists>running. is_server_running demo_world (server_id x) = Inr running \<and>
           (running \<longrightarrow> \<not> isl (stop_server demo_world (server_id x)))) \<and>
        success (fst (backup_server demo_world x (backup_path demo_schedule))) \<and>
        \<not> isl (start_server demo_world (server_id x))"
    by (simp add: demo_world_def srvA_def srvC_def backup_server_def new_result_def Let_def)
  show ?thesis
    using partial_failure_isolation [OF sched targets missing healthy] sched targets missing
    by (simp add: srvA_def srvB_def srvC_def)
qed

lemma upload_to_success:
  "\<not> cloud_backup_success r \<Longrightarrow> cloud_backup_success (fst (upload_to k c p r)) \<Longrightarrow>
   \<exists>b. c = Some b \<and> is_ready b \<and> upload_backup b (res_backup_path r) p = Inr True"
  by (auto simp: upload_to_def split: option.splits sum.splits if_splits)

lemma cloud_step_cases:
  "cloud_step w s x r = (r, []) \<or>
   (\<exists>p. cloud_backup_type s = ONEDRIVE \<and>
        cloud_step w s x r = upload_to ONEDRIVE (onedrive_service w) p r) \<or>
   (\<exists>p. cloud_backup_type s = GOOGLE_CLOUD \<and>
        cloud_step w s x r = upload_to GOOGLE_CLOUD (google_cloud_service w) p r)"
  by (cases "cloud_backup_type s") (auto simp: cloud_step_def)

lemma cloud_step_success:
  assumes "\<not> cloud_backup_success r" "cloud_backup_success (fst (cloud_step w s x r))"
  shows "\<exists>b p. (cloud_backup_type s = ONEDRIVE \<and> onedrive_service w = Some b \<or>
                cloud_backup_type s = GOOGLE_CLOUD \<and> google_cloud_service w = Some b) \<and>
               is_ready b \<and> upload_backup b (res_backup_path r) p = Inr True"
  using cloud_step_cases [of w s x r] assms upload_to_success [OF assms(1)]
  by (metis fst_conv)

lemma backup_one_archived:
  assumes "is_server_running w (server_id x) = Inr running"
    and "running \<longrightarrow> \<not> isl (stop_server w (server_id x))"
    and "success (fst (backup_server w x (backup_path s)))"
  shows "fst (cloud_step w s x (fst (backup_server w x (backup_path s))))
           \<in> set (fst (backup_one w s x))"
    and "StartServer (server_id x) \<in> set (snd (backup_one w s x))"
  using assms
  by (auto simp: backup_one_def cloud_step_keeps split_beta Let_def split: sum.splits)

text \<open>Claim C8 (cloud failure is not fatal, and the restart does not depend on the cloud
  outcome). In a job whose schedule has cloud backup enabled, a targeted server for which the
  process collaborator answers and whose local archive step succeeded has a result in the
  job that is successful and carries the path, size and error text of the local archive
  step unchanged; if no ready backend of the selected type returns \<^verbatim>\<open>True\<close> from its upload (it
  raises, returns \<^verbatim>\<open>False\<close>, is missing or is not ready), that result has
  \<^verbatim>\<open>cloud_backup_success = False\<close>; and the server is started again in every case.\<close>

theorem cloud_failure_non_fatal:
  assumes sched: "get_schedule svc sid = Some schedule"
    and cloud: "enable_cloud_backup schedule"
    and target: "x \<in> set (enabled_servers schedule servers)"
    and running: "is_server_running w (server_id x) = Inr running"
    and stopped: "running \<longrightarrow> \<not> isl (stop_server w (server_id x))"
    and archived: "success (fst (backup_server w x (backup_path schedule)))"
  shows "\<exists>r. r \<in> set (server_results (fst (execute_backup_async w svc sid (Some servers)))) \<and>
            res_server_id r = server_id x \<and> success r \<and>
            res_backup_path r = res_backup_path (fst (backup_server w x (backup_path schedule))) \<and>
            error_message r = error_message (fst (backup_server w x (backup_path schedule))) \<and>
            backup_size_bytes r =
              backup_size_bytes (fst (backup_server w x (backup_path schedule))) \<and>
            ((\<forall>b p. (cloud_backup_type schedule = ONEDRIVE \<and> onedrive_service w = Some b \<or>
                     cloud_backup_type schedule = GOOGLE_CLOUD \<and>
                     google_cloud_service w = Some b) \<and> is_ready b
                    \<longrightarrow> upload_backup b (res_backup_path r) p \<noteq> Inr True)
             \<longrightarrow> \<not> cloud_backup_success r) \<and>
            StartServer (server_id x)
              \<in> set (snd (execute_backup_async w svc sid (Some servers)))"
proof -
  let ?local = "fst (backup_server w x (backup_path schedule))"
  let ?r = "fst (cloud_step w schedule x ?local)"
  have rs: "resolve_schedule w svc sid = schedule"
    by (simp add: resolve_schedule_def sched)
  have "?r \<in> set (fst (backup_one w schedule x))"
    using backup_one_archived(1) [OF running stopped archived] .
  then have "?r \<in> set (fst (backup_all w schedule (enabled_servers schedule servers)))"
    using backup_all_mem(1) [OF target] by blast
  then have in_job: "?r \<in> set (server_results (fst (execute_backup_async w svc sid (Some servers))))"
    by (simp add: execute_results rs)
  have "StartServer (server_id x) \<in> set (snd (backup_one w schedule x))"
    using backup_one_archived(2) [OF running stopped archived] .
  then have "StartServer (server_id x)
      \<in> set (snd (backup_all w schedule (enabled_servers schedule servers)))"
    using backup_all_mem(2) [OF target] by blast
  then have started: "StartServer (server_id x)
      \<in> set (snd (execute_backup_async w svc sid (Some servers)))"
    using execute_events [of w svc sid "Some servers"] by (auto simp: rs)
  have fields: "res_server_id ?r = server_id x" "success ?r"
    "res_backup_path ?r = res_backup_path ?local" "error_message ?r = error_message ?local"
    "backup_size_bytes ?r = backup_size_bytes ?local"
    using archived by (simp_all add: cloud_step_keeps backup_server_id)
  have up: "cloud_backup_success ?r \<longrightarrow>
      (\<exists>b p. (cloud_backup_type schedule = ONEDRIVE \<and> onedrive_service w = Some b \<or>
              cloud_backup_type schedule = GOOGLE_CLOUD \<and> google_cloud_service w = Some b) \<and>
             is_ready b \<and> upload_backup b (res_backup_path ?r) p = Inr True)"
    using cloud_step_success [where r = ?local and w = w and s = schedule and x = x]
      backup_server_no_cloud [of w x "backup_path schedule"]
    by (simp add: fields)
  show ?thesis using in_job started fields up by blast
qed

theorem cloud_failure_non_fatal_witness:
  "get_schedule demo_service ''s1'' = Some demo_schedule \<and>
   enable_cloud_backup demo_schedule \<and>
   srvA \<in> set (enabled_servers demo_schedule [srvA, srvB, srvC]) \<and>
   success (fst (backup_server demo_world srvA (backup_path demo_schedule))) \<and>
   onedrive_service demo_world
     = Some \<lparr>is_ready = True, upload_backup = (\<lambda>f p. Inl ''timed out'')\<rparr> \<and>
   (\<exists>r. r \<in> set (server_results (fst (execute_backup_async demo_world demo_service ''s1''
             (Some [srvA, srvB, srvC])))) \<and>
        res_server_id r = ''A'' \<and> success r \<and> \<not> cloud_backup_success r) \<and>
   StartServer ''A'' \<in> set (snd (execute_backup_async demo_world demo_service ''s1''
             (Some [srvA, srvB, srvC])))"
proof -
  have sched: "get_schedule demo_service ''s1'' = Some demo_schedule"
    by (simp add: get_schedule_def demo_service_def demo_schedule_def)
  have cloud: "enable_cloud_backup demo_schedule"
    by (simp add: demo_schedule_def)
  have target: "srvA \<in> set (enabled_servers demo_schedule [srvA, srvB, srvC])"
    by (simp add: enabled_servers_def demo_schedule_def srvA_def)
  have running: "is_server_running demo_world (server_id srvA) = Inr True"
    by (simp add: demo_world_def srvA_def)
  have stopped: "True \<longrightarrow> \<not> isl (stop_server demo_world (server_id srvA))"
    by (simp add: demo_world_def)
  have archived: "success (fst (backup_server demo_world srvA (backup_path demo_schedule)))"
    by (simp add: demo_world_def srvA_def backup_server_def new_result_def Let_def)
  have od: "onedrive_service demo_world
     = Some \<lparr>is_ready = True, upload_backup = (\<lambda>f p. Inl ''timed out'')\<rparr>"
    by (simp add: demo_world_def)
  have ty: "cloud_backup_type demo_schedule = ONEDRIVE"
    by (simp add: demo_schedule_def)
  from cloud_failure_non_fatal [OF sched cloud target running stopped archived]
  obtain r where r: "r \<in> set (server_results (fst (execute_backup_async demo_world
        demo_service ''s1'' (Some [srvA, srvB, srvC]))))"
      "res_server_id r = server_id srvA" "success r"
      "(\<forall>b p. (cloud_backup_type demo_schedule = ONEDRIVE \<and> onedrive_service demo_world = Some b \<or>
                     cloud_backup_type demo_schedule = GOOGLE_CLOUD \<and>
                     google_cloud_service demo_world = Some b) \<and> is_ready b
                    \<longrightarrow> upload_backup b (res_backup_path r) p \<noteq> Inr True)
             \<longrightarrow> \<not> cloud_backup_success r"
      and st: "StartServer (server_id srvA)
              \<in> set (snd (execute_backup_async demo_world demo_service ''s1''
                   (Some [srvA, srvB, srvC])))"
    by blast
  have "\<not> cloud_backup_success r"
    using r(4) by (auto simp: od ty)
  with r st sched cloud target archived od show ?thesis
    by (auto simp: srvA_def)
qed

text \<open>Claim C10 (no targeted server: an empty, successful job). When the schedule id is unknown,
  or no server of the given list is both named by the schedule and enabled, and the
  completion callback (if one is registered) returns, the job has no results and status
  \<^verbatim>\<open>completed\<close>, and the run does nothing but the retention sweep and the callback: no
  server is stopped, archived or started.\<close>

theorem no_target_vacuous_success:
  assumes none: "get_schedule svc sid = None \<or>
                 enabled_servers (resolve_schedule w svc sid) servers = []"
    and cb: "\<forall>cb j. backup_completed_callback w = Some cb \<longrightarrow> \<not> isl (cb j)"
  shows "server_results (fst (execute_backup_async w svc sid (Some servers))) = [] \<and>
         status (fst (execute_backup_async w svc sid (Some servers))) = COMPLETED \<and>
         snd (execute_backup_async w svc sid (Some servers)) =
           CleanupOldBackups (backup_path (resolve_schedule w svc sid))
               (retention_days (resolve_schedule w svc sid))
             # (case backup_completed_callback w of None \<Rightarrow> [] | Some cb \<Rightarrow> [Callback])"
proof -
  have "enabled_servers (resolve_schedule w svc sid) servers = []"
    using none
    by (auto simp: enabled_servers_def resolve_schedule_def default_BackupSchedule_def)
  then show ?thesis using cb
    by (auto simp: execute_backup_async_def Let_def isl_def split: option.splits sum.splits)
qed

theorem no_target_vacuous_success_witness:
  "get_schedule demo_service ''unknown'' = None \<and>
   server_results (fst (execute_backup_async demo_world demo_service ''unknown''
       (Some [srvA, srvB, srvC]))) = [] \<and>
   status (fst (execute_backup_async demo_world demo_service ''unknown''
       (Some [srvA, srvB, srvC]))) = COMPLETED \<and>
   snd (execute_backup_async demo_world demo_service ''unknown'' (Some [srvA, srvB, srvC]))
     = [CleanupOldBackups [] 7, Callback]"
proof -
  have none: "get_schedule demo_service ''unknown'' = None"
    by (simp add: get_schedule_def demo_service_def demo_schedule_def)
  have cb: "\<forall>cb j. backup_completed_callback demo_world = Some cb \<longrightarrow> \<not> isl (cb j)"
    by (auto simp: demo_world_def)
  have rs: "resolve_schedule demo_world demo_service ''unknown'' = default_BackupSchedule at_0330"
    by (simp add: resolve_schedule_def none demo_world_def)
  have cbv: "backup_completed_callback demo_world = Some (\<lambda>job. Inr ())"
    by (simp add: demo_world_def)
  show ?thesis
    using no_target_vacuous_success [OF disjI1 [OF none] cb, of "[srvA, srvB, srvC]"] none
    by (simp add: rs cbv default_BackupSchedule_def)
qed

section \<open>Retention sweeper: the boundary\<close>

lemma snapshot_dirs_sweep:
  assumes "\<forall>s \<in> set server_dirs. srv_is_dir s \<longrightarrow> srv_listing s \<noteq> None"
  shows "snapshot_dirs (Listing (sweep_servers c server_dirs)) =
         filter (\<lambda>(n, d). \<not> sweep_removes c d) (snapshot_dirs (Listing server_dirs))"
  using assms
proof (induction server_dirs)
  case Nil
  then show ?case by simp
next
  case (Cons s rest)
  then have IH: "snapshot_dirs (Listing (sweep_servers c rest)) =
         filter (\<lambda>(n, d). \<not> sweep_removes c d) (snapshot_dirs (Listing rest))"
    by simp
  show ?case
  proof (cases "srv_is_dir s")
    case False
    with IH show ?thesis by simp
  next
    case True
    with Cons.prems obtain children where ch: "srv_listing s = Some children" by auto
    have "filter (\<lambda>(n, d). \<not> sweep_removes c d) (map (Pair (srv_name s)) children)
        = map (Pair (srv_name s)) (filter (\<lambda>d. \<not> sweep_removes c d) children)"
      by (induction children) auto
    with True ch IH show ?thesis by simp
  qed
qed

text \<open>A directory that is not strictly older than the cutoff stays, whether or not it could
  be removed.\<close>

lemma sweep_keeps_recent:
  assumes "\<forall>s \<in> set server_dirs. srv_is_dir s \<longrightarrow> srv_listing s \<noteq> None"
    and "(n, d) \<in> set (snapshot_dirs (Listing server_dirs))"
    and "entry_mtime d = Some mtime" "\<not> mtime < now - real_of_int retention * 86400"
  shows "(n, d) \<in> set (snapshot_dirs (cleanup_old_backups now (Listing server_dirs) retention))"
  using assms snapshot_dirs_sweep [OF assms(1)]
  by (auto simp: cleanup_old_backups_def sweep_removes_def)

text \<open>Claim C4 (retention boundary). In a sweep in which every server directory can be
  listed, a snapshot directory whose modification time can be read and whose removal does
  not fail is gone afterwards exactly when its modification time is strictly less than
  \<open>now - retention_days * 86400\<close>; a directory exactly \<open>retention_days\<close> old is kept.\<close>

theorem retention_boundary:
  assumes listable: "\<forall>s \<in> set server_dirs. srv_is_dir s \<longrightarrow> srv_listing s \<noteq> None"
    and present: "(n, d) \<in> set (snapshot_dirs (Listing server_dirs))"
    and dir: "entry_is_dir d" "entry_mtime d = Some mtime" "entry_removable d"
  shows "(n, d) \<notin> set (snapshot_dirs (cleanup_old_backups now (Listing server_dirs) retention))
         \<longleftrightarrow> mtime < now - real_of_int retention * 86400"
proof -
  have "snapshot_dirs (cleanup_old_backups now (Listing server_dirs) retention) =
        filter (\<lambda>(n, d). \<not> sweep_removes (now - real_of_int (retention * 24 * 60 * 60)) d)
          (snapshot_dirs (Listing server_dirs))"
    using snapshot_dirs_sweep [OF listable] by (simp add: cleanup_old_backups_def)
  then show ?thesis using present dir by (auto simp: sweep_removes_def)
qed

theorem retention_boundary_witness:
  "(''A'', six_days_old)
     \<in> set (snapshot_dirs (cleanup_old_backups sweep_time (Listing three_snapshots) 7)) \<and>
   (''A'', seven_days_old)
     \<in> set (snapshot_dirs (cleanup_old_backups sweep_time (Listing three_snapshots) 7)) \<and>
   (''A'', eight_days_old)
     \<notin> set (snapshot_dirs (cleanup_old_backups sweep_time (Listing three_snapshots) 7))"
proof -
  have listable: "\<forall>s \<in> set three_snapshots. srv_is_dir s \<longrightarrow> srv_listing s \<noteq> None"
    by (simp add: three_snapshots_def)
  have present: "(''A'', six_days_old) \<in> set (snapshot_dirs (Listing three_snapshots))"
    "(''A'', seven_days_old) \<in> set (snapshot_dirs (Listing three_snapshots))"
    "(''A'', eight_days_old) \<in> set (snapshot_dirs (Listing three_snapshots))"
    by (simp_all add: three_snapshots_def)
  have six: "entry_is_dir six_days_old" "entry_mtime six_days_old = Some (sweep_time - 6 * 86400)"
    "entry_removable six_days_old"
    by (simp_all add: six_days_old_def)
  have seven: "entry_is_dir seven_days_old"
    "entry_mtime seven_days_old = Some (sweep_time - 7 * 86400)" "entry_removable seven_days_old"
    by (simp_all add: seven_days_old_def)
  have eight: "entry_is_dir eight_days_old"
    "entry_mtime eight_days_old = Some (sweep_time - 8 * 86400)" "entry_removable eight_days_old"
    by (simp_all add: eight_days_old_def)
  show ?thesis
    using retention_boundary [OF listable present(1) six, of sweep_time 7]
      retention_boundary [OF listable present(2) seven, of sweep_time 7]
      retention_boundary [OF listable present(3) eight, of sweep_time 7]
    by simp
qed

lemma sweep_three_snapshots:
  "cleanup_old_backups sweep_time (Listing three_snapshots) 7
     = Listing [\<lparr>srv_name = ''A'', srv_is_dir = True,
                 srv_listing = Some [six_days_old, seven_days_old]\<rparr>]"
  by (simp add: cleanup_old_backups_def three_snapshots_def sweep_removes_def
      six_days_old_def seven_days_old_def eight_days_old_def)

section \<open>Restore engine: success criterion and safety copy\<close>

lemma extract_files_count:
  "extracted_count (fst (extract_files fs c))
     = extracted_count c + length (extracted_files (snd (extract_files fs c)))"
  by (induction fs arbitrary: c) (auto simp: split_beta split: extract_outcome.splits)

lemma extract_files_only_extract:
  "e \<in> set (snd (extract_files fs c)) \<Longrightarrow> \<exists>f. e = Extract f"
  by (induction fs arbitrary: c) (auto simp: split_beta split: extract_outcome.splits if_splits)

lemma extract_files_all_skipped:
  "list_all (\<lambda>f. is_skipped (entry_file_name f)) fs \<Longrightarrow>
   extract_files fs c = (c\<lparr>skipped_count := skipped_count c + length fs\<rparr>, [])"
  by (induction fs arbitrary: c) auto

lemma extract_backup_ok:
  "fst (extract_backup w) \<longleftrightarrow> extracted_files (snd (snd (extract_backup w))) \<noteq> []"
proof (cases "backup_archive w")
  case (Namelist fl)
  then show ?thesis
    using extract_files_count
      [of fl "\<lparr>extracted_count = 0, skipped_count = 0, error_count = 0\<rparr>"]
    by (auto simp: extract_backup_def split_beta Let_def)
qed (simp_all add: extract_backup_def)

lemma is_skipped_examples:
  "is_skipped ''server.exe''" "is_skipped ''bin/Tool.DLL''" "\<not> is_skipped ''save.dat''"
  by code_simp+

text \<open>Claim C6 (restore success criterion). A restore reports success exactly when it wrote at
  least one entry of the archive into the destination. When the archive opens and every
  entry has a skip-listed extension, the restore fails with the message that no files
  were extracted; the counters are 0 extracted, all skipped, 0 errors.\<close>

theorem restore_success_iff_extracted:
  "(fst (restore_backup w create_backup)
      \<longleftrightarrow> extracted_files (snd (snd (restore_backup w create_backup))) \<noteq> []) \<and>
   (backup_file_exists w \<and> dest w = DestDir content \<and> copytree w = None \<and>
    backup_archive w = Namelist file_list \<and>
    list_all (\<lambda>f. is_skipped (entry_file_name f)) file_list
    \<longrightarrow> fst (restore_backup w create_backup) = False \<and>
        fst (snd (restore_backup w create_backup)) = NoFilesExtracted \<and>
        fst (extract_files file_list \<lparr>extracted_count = 0, skipped_count = 0, error_count = 0\<rparr>)
          = \<lparr>extracted_count = 0, skipped_count = length file_list, error_count = 0\<rparr>)"
proof -
  have iff: "fst (restore_backup w create_backup)
      \<longleftrightarrow> extracted_files (snd (snd (restore_backup w create_backup))) \<noteq> []"
    using extract_backup_ok [of w]
    by (auto simp: restore_backup_def split_beta Let_def split: destination.splits option.splits)
  have skipped: "fst (restore_backup w create_backup) = False \<and>
        fst (snd (restore_backup w create_backup)) = NoFilesExtracted \<and>
        fst (extract_files file_list \<lparr>extracted_count = 0, skipped_count = 0, error_count = 0\<rparr>)
          = \<lparr>extracted_count = 0, skipped_count = length file_list, error_count = 0\<rparr>"
    if "backup_file_exists w" "dest w = DestDir content" "copytree w = None"
      "backup_archive w = Namelist file_list"
      "list_all (\<lambda>f. is_skipped (entry_file_name f)) file_list"
    using that
    by (simp add: restore_backup_def extract_backup_def extract_files_all_skipped Let_def)
  show ?thesis using iff skipped by blast
qed

theorem restore_success_iff_extracted_witness:
  "backup_file_exists only_executables \<and> dest only_executables = DestDir [''world.sav''] \<and>
   copytree only_executables = None \<and>
   list_all (\<lambda>f. is_skipped (entry_file_name f))
     [\<lparr>entry_file_name = ''server.exe'', on_extract = Written\<rparr>,
      \<lparr>entry_file_name = ''bin/Tool.DLL'', on_extract = Written\<rparr>] \<and>
   fst (restore_backup only_executables True) = False \<and>
   fst (snd (restore_backup only_executables True)) = NoFilesExtracted \<and>
   extracted_files (snd (snd (restore_backup only_executables True))) = []"
proof -
  have a: "backup_file_exists only_executables"
    and b: "dest only_executables = DestDir [''world.sav'']"
    and c: "copytree only_executables = None"
    and d: "backup_archive only_executables = Namelist
        [\<lparr>entry_file_name = ''server.exe'', on_extract = Written\<rparr>,
         \<lparr>entry_file_name = ''bin/Tool.DLL'', on_extract = Written\<rparr>]"
    by (simp_all add: only_executables_def)
  have e: "list_all (\<lambda>f. is_skipped (entry_file_name f))
     [\<lparr>entry_file_name = ''server.exe'', on_extract = Written\<rparr>,
      \<lparr>entry_file_name = ''bin/Tool.DLL'', on_extract = Written\<rparr>]"
    by (simp add: is_skipped_examples)
  show ?thesis
    using restore_success_iff_extracted [of only_executables True "[''world.sav'']"
        "[\<lparr>entry_file_name = ''server.exe'', on_extract = Written\<rparr>,
          \<lparr>entry_file_name = ''bin/Tool.DLL'', on_extract = Written\<rparr>]"] a b c d e
    by auto
qed

text \<open>Claim C7 (safety snapshot). In a restore with \<^verbatim>\<open>create_backup\<close> into a directory that is
  not empty, the copy of the whole destination to the sibling \<^verbatim>\<open>{name}_backup_{timestamp}\<close> is
  the first thing done once the archive has been found; whenever an entry of the archive
  is written, that copy came first and succeeded; and if the copy fails, the restore fails
  and no entry of the archive is written.\<close>

theorem safety_copy_first:
  assumes "dest w = DestDir content" "content \<noteq> []"
  shows "(backup_file_exists w \<longrightarrow>
            take 1 (snd (snd (restore_backup w True)))
              = [CopyTree (dest_parent w @ ''/'' @ dest_name w) content
                   (dest_parent w @ ''/'' @ dest_name w @ ''_backup_'' @ restore_stamp w)
                   (copytree w = None)]) \<and>
         (extracted_files (snd (snd (restore_backup w True))) \<noteq> [] \<longrightarrow>
            take 1 (snd (snd (restore_backup w True)))
              = [CopyTree (dest_parent w @ ''/'' @ dest_name w) content
                   (dest_parent w @ ''/'' @ dest_name w @ ''_backup_'' @ restore_stamp w)
                   True]) \<and>
         (copytree w \<noteq> None \<longrightarrow>
            \<not> fst (restore_backup w True) \<and>
            extracted_files (snd (snd (restore_backup w True))) = [])"
  using assms
  by (auto simp: restore_backup_def split_beta Let_def split: option.splits)

theorem safety_copy_first_witness:
  "dest copy_fails = DestDir [''world.sav''] \<and> backup_file_exists copy_fails \<and>
   copytree copy_fails = Some ''disk full'' \<and>
   restore_backup copy_fails True
     = (False, FailedToCreateBackup ''disk full'',
        [CopyTree ''/srv/saves'' [''world.sav''] ''/srv/saves_backup_20240301_143000'' False]) \<and>
   dest copy_succeeds = DestDir [''world.sav''] \<and> backup_file_exists copy_succeeds \<and>
   restore_backup copy_succeeds True
     = (True, SuccessfullyRestored 1 1 0,
        [CopyTree ''/srv/saves'' [''world.sav''] ''/srv/saves_backup_20240301_143000'' True,
         Extract ''save.dat''])"
proof -
  have a: "backup_file_exists copy_fails" "backup_file_exists copy_succeeds"
    and b: "dest copy_fails = DestDir [''world.sav'']"
      "dest copy_succeeds = DestDir [''world.sav'']"
    and c: "copytree copy_fails = Some ''disk full''"
    by (simp_all add: copy_fails_def copy_succeeds_def)
  have n: "[''world.sav''] \<noteq> []" by simp
  have s: "\<not> is_skipped ''save.dat''" "is_skipped ''server.exe''"
    by code_simp+
  have r1: "restore_backup copy_fails True
     = (False, FailedToCreateBackup ''disk full'',
        [CopyTree ''/srv/saves'' [''world.sav''] ''/srv/saves_backup_20240301_143000'' False])"
    by (simp add: restore_backup_def copy_fails_def)
  have r2: "restore_backup copy_succeeds True
     = (True, SuccessfullyRestored 1 1 0,
        [CopyTree ''/srv/saves'' [''world.sav''] ''/srv/saves_backup_20240301_143000'' True,
         Extract ''save.dat''])"
    by (simp add: restore_backup_def extract_backup_def copy_fails_def copy_succeeds_def s)
  show ?thesis
    using safety_copy_first [OF b(1) n] safety_copy_first [OF b(2) n] a b c r1 r2 by simp
qed

section \<open>Timestamps of file names\<close>











































section \<open>Discovery: the order of the result\<close>

lemma sort_backups_sorted: "sorted (rev (map sort_key_of (sort_backups xs)))"
  by (simp add: sort_backups_def rev_map [symmetric])

lemma sort_backups_mset: "mset (sort_backups xs) = mset xs"
  by (simp add: sort_backups_def)

lemma sort_backups_stable:
  "filter (\<lambda>b. sort_key_of b = k) (sort_backups xs) = filter (\<lambda>b. sort_key_of b = k) xs"
  by (simp add: sort_backups_def rev_filter [symmetric] sort_key_stable)

lemma sorted_rev_nth:
  assumes "sorted (rev ks)" "i < j" "j < length ks"
  shows "ks ! j \<le> ks ! i"
proof -
  have "rev ks ! (length ks - 1 - j) \<le> rev ks ! (length ks - 1 - i)"
    using assms by (intro sorted_nth_mono) auto
  then show ?thesis using assms by (simp add: rev_nth)
qed

lemma sort_backups_null_last:
  assumes "i < length (sort_backups xs)" "j < length (sort_backups xs)"
    and "timestamp (sort_backups xs ! i) = None"
    and "timestamp (sort_backups xs ! j) = Some t" "datetime_min < t"
  shows "j < i"
proof (rule ccontr)
  assume "\<not> j < i"
  with assms have "i < j" by (cases "i = j") auto
  then have "map sort_key_of (sort_backups xs) ! j \<le> map sort_key_of (sort_backups xs) ! i"
    using sorted_rev_nth [OF sort_backups_sorted, of i j xs] assms by simp
  then have "t \<le> datetime_min" using assms by (simp add: sort_key_of_def)
  with assms show False by simp
qed

text \<open>Claim C9 (discovery ordering), as the code has it. The result of \<^verbatim>\<open>discover_backups\<close> is in
  descending order of the sort key, which is the parsed timestamp, or \<^verbatim>\<open>datetime.min\<close>
  (0001-01-01 00:00:00) for a snapshot without one; snapshots of equal key keep the order
  of the scan. So a snapshot without timestamp comes after every snapshot whose
  timestamp is later than \<^verbatim>\<open>datetime.min\<close>.\<close>

theorem discover_ordering:
  "sorted (rev (map sort_key_of (discover_backups (Some server_dirs) servers))) \<and>
   (\<forall>k. filter (\<lambda>b. sort_key_of b = k) (discover_backups (Some server_dirs) servers)
        = filter (\<lambda>b. sort_key_of b = k)
            (concat (map (scan_server_folder servers) server_dirs))) \<and>
   (\<forall>i j t. i < length (discover_backups (Some server_dirs) servers) \<and>
            j < length (discover_backups (Some server_dirs) servers) \<and>
            timestamp (discover_backups (Some server_dirs) servers ! i) = None \<and>
            timestamp (discover_backups (Some server_dirs) servers ! j) = Some t \<and>
            datetime_min < t
            \<longrightarrow> j < i)"
  using sort_backups_null_last
  by (auto simp: discover_backups_def sort_backups_sorted sort_backups_stable)

text \<open>The example of the claim: archives found in the order null, 10:00, 12:00 come back as
  12:00, 10:00, null.\<close>

theorem discover_ordering_witness:
  "map timestamp (discover_backups (Some unparsed_then_two) [])
     = [Some (2024, 3, 1, 12, 0, 0), Some (2024, 3, 1, 10, 0, 0), None] \<and>
   datetime_min < (2024, 3, 1, 12, 0, 0) \<and> datetime_min < (2024, 3, 1, 10, 0, 0) \<and>
   sorted (rev (map sort_key_of (discover_backups (Some unparsed_then_two) [])))"
proof -
  have ev: "map timestamp (discover_backups (Some unparsed_then_two) [])
     = [Some (2024, 3, 1, 12, 0, 0), Some (2024, 3, 1, 10, 0, 0), None]"
    by code_simp
  have lt: "datetime_min < (2024, 3, 1, 12, 0, 0)" "datetime_min < (2024, 3, 1, 10, 0, 0)"
    by (simp_all add: datetime_min_def)
  from discover_ordering [of unparsed_then_two "[]"]
  have "sorted (rev (map sort_key_of (discover_backups (Some unparsed_then_two) [])))"
    by blast
  with ev lt show ?thesis by simp
qed

text \<open>The claim as stated (every snapshot without timestamp after every snapshot with one)
  fails for a timestamp equal to \<^verbatim>\<open>datetime.min\<close>: the archive of year 1 has the same key as
  the archive without timestamp, and the scan order is kept.\<close>

theorem discover_ordering_counterexample:
  "map zip_name (folder_zips (hd unparsed_then_year_one))
     = [''S_backup.zip'', ''S_0001-01-01_00-00-00.zip''] \<and>
   map timestamp (discover_backups (Some unparsed_then_year_one) [])
     = [None, Some (1, 1, 1, 0, 0, 0)]"
  by code_simp

end
